theory Spec2Isabelle
  imports Main "HOL-Library.Product_Lexorder" "HOL-Library.Multiset" "HOL-Library.Sublist"
begin

section \<open>Data model of scheduler.py\<close>

text \<open>
  The fields of a Python \<^verbatim>\<open>datetime\<close> (proleptic Gregorian calendar, microsecond resolution)
  are the number of microseconds since \<^verbatim>\<open>datetime.min\<close> = 0001-01-01 00:00:00. The type is
  bounded: \<^verbatim>\<open>datetime.max\<close> is 9999-12-31 23:59:59.999999, the last microsecond of day
  number 3652059. A \<^verbatim>\<open>timedelta\<close> is a number of microseconds whose whole days stay within
  999999999 in magnitude. Leaving either range raises \<^verbatim>\<open>OverflowError\<close>.
\<close>

type_synonym datetime = int
type_synonym timedelta = int

datatype error = ParserError | OverflowError | TypeError

record Task =
  name :: string
  duration :: int
  priority :: int

record Block =
  start :: datetime
  end_time :: datetime
  name :: string

definition us_per_minute :: int where
  "us_per_minute = 60000000"

definition us_per_day :: int where
  "us_per_day = 86400000000"

definition datetime_limit :: int where
  "datetime_limit = 3652059 * 86400000000"

definition valid_datetime :: "datetime \<Rightarrow> bool" where
  "valid_datetime d \<longleftrightarrow> 0 \<le> d \<and> d < datetime_limit"

text \<open>\<^verbatim>\<open>timedelta(minutes=n)\<close>: the days component is \<open>n * 60 // 86400\<close>.\<close>

definition timedelta_minutes :: "int \<Rightarrow> error + timedelta" where
  "timedelta_minutes n =
     (if - 999999999 \<le> n div 1440 \<and> n div 1440 \<le> 999999999
      then Inr (n * us_per_minute) else Inl OverflowError)"

text \<open>\<^verbatim>\<open>d + td\<close> for a datetime \<open>d\<close> and a timedelta \<open>td\<close>.\<close>

definition datetime_add :: "datetime \<Rightarrow> timedelta \<Rightarrow> error + datetime" where
  "datetime_add d td =
     (if valid_datetime (d + td) then Inr (d + td) else Inl OverflowError)"

section \<open>plan_day\<close>

text \<open>
  The time parser (\<^verbatim>\<open>dateutil.parser.parse\<close>) is a library outside the repository; it is
  a parameter \<open>parse\<close> of the model, returning either the exception it raises or the
  datetime it reads. That datetime is naive, or aware when the string names a time zone;
  \<open>moment\<close> is the datetime's own fields (year to microsecond) in either case. Python
  does not order an aware datetime against a naive one: the comparison raises
  \<^verbatim>\<open>TypeError\<close>. Two aware results are taken to have one UTC offset, as when both strings
  name the same zone; Python then orders them by their fields, as it orders naive ones.
  Aware results with two different UTC offsets are outside the model.
\<close>

datatype parsed = Naive (moment: datetime) | Aware (moment: datetime)

fun aware :: "parsed \<Rightarrow> bool" where
  "aware (Naive d) = False"
| "aware (Aware d) = True"

text \<open>
  Lines 18 to 21 of scheduler.py: both strings are parsed, wake first; the comparison of
  line 20 fails when exactly one result is aware; a sleep time that is not after the wake
  time moves to the next day.
\<close>

definition resolve_window ::
  "(string \<Rightarrow> error + parsed) \<Rightarrow> string \<Rightarrow> string \<Rightarrow> error + (datetime \<times> datetime)" where
  "resolve_window parse wake_time sleep_time =
     (case parse wake_time of
        Inl e \<Rightarrow> Inl e
      | Inr wstart \<Rightarrow>
          (case parse sleep_time of
             Inl e \<Rightarrow> Inl e
           | Inr wend \<Rightarrow>
               if aware wend \<noteq> aware wstart then Inl TypeError
               else if moment wend \<le> moment wstart
               then (case datetime_add (moment wend) us_per_day of
                       Inl e \<Rightarrow> Inl e
                     | Inr wend' \<Rightarrow> Inr (moment wstart, wend'))
               else Inr (moment wstart, moment wend)))"

text \<open>Line 23: Python's \<^verbatim>\<open>sorted\<close> is stable; the key is the pair (-priority, -duration).\<close>

definition sort_tasks :: "Task list \<Rightarrow> Task list" where
  "sort_tasks tasks = sort_key (\<lambda>t. (- priority t, - duration t)) tasks"

text \<open>The loop variables \<^verbatim>\<open>cur\<close>, \<^verbatim>\<open>focus\<close> and \<^verbatim>\<open>plan\<close>.\<close>

record state =
  cur :: datetime
  focus :: int
  plan :: "Block list"

text \<open>
  Lines 29 to 32. The \<^verbatim>\<open>and\<close> is short-circuit: the break's end is computed only when
  the focus counter has reached \<open>break_every\<close>. The source computes
  \<^verbatim>\<open>cur + timedelta(minutes=break_len)\<close> in the test and again for \<^verbatim>\<open>b_end\<close>; both
  are the same value.
\<close>

definition take_break :: "int \<Rightarrow> int \<Rightarrow> datetime \<Rightarrow> state \<Rightarrow> error + state" where
  "take_break break_every break_len wend st =
     (if focus st \<ge> break_every
      then (case timedelta_minutes break_len of
              Inl e \<Rightarrow> Inl e
            | Inr blen \<Rightarrow>
                (case datetime_add (cur st) blen of
                   Inl e \<Rightarrow> Inl e
                 | Inr b_end \<Rightarrow>
                     if b_end \<le> wend
                     then Inr \<lparr>cur = b_end, focus = 0,
                               plan = plan st @
                                 [\<lparr>start = cur st, end_time = b_end, name = ''Short Break''\<rparr>]\<rparr>
                     else Inr st))
      else Inr st)"

text \<open>Lines 34 to 38.\<close>

definition place_task :: "datetime \<Rightarrow> state \<Rightarrow> Task \<Rightarrow> error + state" where
  "place_task wend st t =
     (case timedelta_minutes (duration t) of
        Inl e \<Rightarrow> Inl e
      | Inr tlen \<Rightarrow>
          (case datetime_add (cur st) tlen of
             Inl e \<Rightarrow> Inl e
           | Inr t_end \<Rightarrow>
               if t_end \<le> wend
               then Inr \<lparr>cur = t_end, focus = focus st + duration t,
                         plan = plan st @
                           [\<lparr>start = cur st, end_time = t_end, name = Task.name t\<rparr>]\<rparr>
               else Inr st))"

text \<open>One iteration of the loop of line 28.\<close>

definition loop_body :: "int \<Rightarrow> int \<Rightarrow> datetime \<Rightarrow> state \<Rightarrow> Task \<Rightarrow> error + state" where
  "loop_body break_every break_len wend st t =
     (case take_break break_every break_len wend st of
        Inl e \<Rightarrow> Inl e
      | Inr st1 \<Rightarrow> place_task wend st1 t)"

fun run_tasks :: "int \<Rightarrow> int \<Rightarrow> datetime \<Rightarrow> Task list \<Rightarrow> state \<Rightarrow> error + state" where
  "run_tasks break_every break_len wend [] st = Inr st"
| "run_tasks break_every break_len wend (t # ts) st =
     (case loop_body break_every break_len wend st t of
        Inl e \<Rightarrow> Inl e
      | Inr st' \<Rightarrow> run_tasks break_every break_len wend ts st')"

text \<open>Lines 40 to 42.\<close>

definition add_buffer :: "datetime \<Rightarrow> state \<Rightarrow> Block list" where
  "add_buffer wend st =
     (if cur st < wend
      then plan st @ [\<lparr>start = cur st, end_time = wend, name = ''Free Time / Buffer''\<rparr>]
      else plan st)"

text \<open>
  \<^verbatim>\<open>plan_day(wake_time, sleep_time, tasks, break_every=60, break_len=5)\<close>; the model
  takes both break parameters explicitly.
\<close>

definition plan_day ::
  "(string \<Rightarrow> error + parsed) \<Rightarrow> string \<Rightarrow> string \<Rightarrow> Task list \<Rightarrow> int \<Rightarrow> int
     \<Rightarrow> error + Block list" where
  "plan_day parse wake_time sleep_time tasks break_every break_len =
     (case resolve_window parse wake_time sleep_time of
        Inl e \<Rightarrow> Inl e
      | Inr (wstart, wend) \<Rightarrow>
          (case run_tasks break_every break_len wend (sort_tasks tasks)
                  \<lparr>cur = wstart, focus = 0, plan = []\<rparr> of
             Inl e \<Rightarrow> Inl e
           | Inr st \<Rightarrow> Inr (add_buffer wend st)))"

section \<open>format_blocks\<close>

text \<open>
  \<^verbatim>\<open>strftime('%I:%M %p')\<close> in the C locale: the hour on the 12-hour clock and the minute,
  each as two decimal digits, then AM or PM.
\<close>

definition hour_of :: "datetime \<Rightarrow> int" where
  "hour_of d = (d div 3600000000) mod 24"

definition minute_of :: "datetime \<Rightarrow> int" where
  "minute_of d = (d div 60000000) mod 60"

definition two_digits :: "int \<Rightarrow> string" where
  "two_digits n = [''0123456789'' ! nat (n div 10), ''0123456789'' ! nat (n mod 10)]"

definition hour12 :: "int \<Rightarrow> int" where
  "hour12 h = (if h mod 12 = 0 then 12 else h mod 12)"

definition am_pm :: "int \<Rightarrow> string" where
  "am_pm h = (if h < 12 then ''AM'' else ''PM'')"

definition strftime_I_M_p :: "datetime \<Rightarrow> string" where
  "strftime_I_M_p d =
     two_digits (hour12 (hour_of d)) @ '':'' @ two_digits (minute_of d) @ '' '' @
     am_pm (hour_of d)"

text \<open>The separator of the f-string is an en dash (U+2013), here as its UTF-8 bytes.\<close>

definition en_dash :: string where
  "en_dash = [CHR 0xE2, CHR 0x80, CHR 0x93]"

text \<open>Each row is a dict with the keys Time and Task, in this order.\<close>

definition format_blocks :: "Block list \<Rightarrow> (string \<times> string) list list" where
  "format_blocks blocks =
     map (\<lambda>b. [(''Time'', strftime_I_M_p (start b) @ en_dash @ strftime_I_M_p (end_time b)),
               (''Task'', name b)]) blocks"

section \<open>Notions used in the statements\<close>



text \<open>Until a block has been placed, the cursor is at the window start.\<close>

definition started :: "datetime \<Rightarrow> state \<Rightarrow> bool" where
  "started ws st \<longleftrightarrow> (plan st = [] \<longrightarrow> cur st = ws)"

text \<open>The order of line 23 on two tasks: higher priority first, then longer duration.\<close>

definition before :: "Task \<Rightarrow> Task \<Rightarrow> bool" where
  "before a b \<longleftrightarrow> priority b < priority a \<or> (priority a = priority b \<and> duration b \<le> duration a)"

text \<open>The labels of a plan that are neither the break label nor the buffer label.\<close>

definition task_labels :: "Block list \<Rightarrow> string list" where
  "task_labels blocks =
     filter (\<lambda>n. n \<noteq> ''Short Break'' \<and> n \<noteq> ''Free Time / Buffer'') (map name blocks)"


text \<open>
  A length of \<open>n\<close> minutes is non-negative and, added to the window end, still a datetime.
  No addition of the loop overflows for such a length.
\<close>

definition in_range :: "datetime \<Rightarrow> int \<Rightarrow> bool" where
  "in_range wend n \<longleftrightarrow> 0 \<le> n \<and> valid_datetime (wend + n * us_per_minute)"

text \<open>
  The window end that lines 20 and 21 compute from the wake fields \<open>s\<close> and the sleep
  fields \<open>e\<close>.
\<close>

definition rolled :: "datetime \<Rightarrow> datetime \<Rightarrow> datetime" where
  "rolled s e = (if e \<le> s then e + us_per_day else e)"

text \<open>
  An instance of the parser, for running the model on concrete inputs: what six strings
  mean on 2026-11-03 (day 739922 after 0001-01-01); every other string is rejected.
\<close>

definition sample_parse :: "string \<Rightarrow> error + parsed" where
  "sample_parse s =
     (if s = ''06:30 AM'' then Inr (Naive 63929284200000000)
      else if s = ''07:00 AM'' then Inr (Naive 63929286000000000)
      else if s = ''10:30 PM'' then Inr (Naive 63929341800000000)
      else if s = ''07:00 AM UTC'' then Inr (Aware 63929286000000000)
      else if s = ''2026-11-04 07:00 AM'' then Inr (Naive 63929372400000000)
      else if s = ''2026-11-10 07:00 AM'' then Inr (Naive 63929890800000000)
      else Inl ParserError)"

definition sample_tasks :: "Task list" where
  "sample_tasks =
     [\<lparr>Task.name = ''Email'', duration = 10, priority = 2\<rparr>,
      \<lparr>Task.name = ''Write report'', duration = 15, priority = 5\<rparr>,
      \<lparr>Task.name = ''Call'', duration = 10, priority = 1\<rparr>]"

text \<open>The plan for these tasks between 06:30 and 07:00 with a 3-minute break every 10.\<close>

definition sample_blocks :: "Block list" where
  "sample_blocks =
     [\<lparr>start = 63929284200000000, end_time = 63929285100000000, name = ''Write report''\<rparr>,
      \<lparr>start = 63929285100000000, end_time = 63929285280000000, name = ''Short Break''\<rparr>,
      \<lparr>start = 63929285280000000, end_time = 63929285880000000, name = ''Email''\<rparr>,
      \<lparr>start = 63929285880000000, end_time = 63929286000000000,
        name = ''Free Time / Buffer''\<rparr>]"

text \<open>Three tasks of one priority, two of them of one duration.\<close>

definition tied_tasks :: "Task list" where
  "tied_tasks =
     [\<lparr>Task.name = ''Stretch'', duration = 10, priority = 3\<rparr>,
      \<lparr>Task.name = ''Write report'', duration = 20, priority = 3\<rparr>,
      \<lparr>Task.name = ''Email'', duration = 10, priority = 3\<rparr>]"

section \<open>Facts about the datetime operations and the loop body\<close>

lemma timedelta_minutes_pos:
  "timedelta_minutes n = Inr td \<Longrightarrow> td = n * us_per_minute"
  by (auto simp: timedelta_minutes_def split: if_splits)

lemma datetime_add_Inr: "datetime_add d td = Inr r \<Longrightarrow> r = d + td"
  by (auto simp: datetime_add_def split: if_splits)

lemma take_break_cases:
  assumes "take_break break_every break_len wend st = Inr st'"
  shows "(break_every \<le> focus st \<and> cur st + break_len * us_per_minute \<le> wend \<and>
          st' = \<lparr>cur = cur st + break_len * us_per_minute, focus = 0,
                 plan = plan st @ [\<lparr>start = cur st,
                   end_time = cur st + break_len * us_per_minute, name = ''Short Break''\<rparr>]\<rparr>)
       \<or> (\<not> (break_every \<le> focus st \<and> cur st + break_len * us_per_minute \<le> wend) \<and> st' = st)"
  using assms
  by (auto simp: take_break_def split: if_splits sum.splits
      dest!: timedelta_minutes_pos datetime_add_Inr)

lemma place_task_cases:
  assumes "place_task wend st t = Inr st'"
  shows "(cur st + duration t * us_per_minute \<le> wend \<and>
          st' = \<lparr>cur = cur st + duration t * us_per_minute, focus = focus st + duration t,
                 plan = plan st @ [\<lparr>start = cur st,
                   end_time = cur st + duration t * us_per_minute, name = Task.name t\<rparr>]\<rparr>)
       \<or> (\<not> cur st + duration t * us_per_minute \<le> wend \<and> st' = st)"
  using assms
  by (auto simp: place_task_def split: if_splits sum.splits
      dest!: timedelta_minutes_pos datetime_add_Inr)

lemma loop_body_split:
  "loop_body break_every break_len wend st t = Inr st' \<Longrightarrow>
     \<exists>st1. take_break break_every break_len wend st = Inr st1 \<and> place_task wend st1 t = Inr st'"
  by (auto simp: loop_body_def split: sum.splits)

lemma set_sort_tasks: "set (sort_tasks tasks) = set tasks"
  by (simp add: sort_tasks_def)


lemma timedelta_minutes_error: "timedelta_minutes n = Inl e \<Longrightarrow> e = OverflowError"
  by (auto simp: timedelta_minutes_def split: if_splits)

lemma datetime_add_error: "datetime_add d td = Inl e \<Longrightarrow> e = OverflowError"
  by (auto simp: datetime_add_def split: if_splits)

lemma take_break_error:
  "take_break break_every break_len wend st = Inl e \<Longrightarrow> e = OverflowError"
  by (auto simp: take_break_def split: if_splits sum.splits
      dest: timedelta_minutes_error datetime_add_error)

lemma place_task_error: "place_task wend st t = Inl e \<Longrightarrow> e = OverflowError"
  by (auto simp: place_task_def split: if_splits sum.splits
      dest: timedelta_minutes_error datetime_add_error)

lemma loop_body_error:
  "loop_body break_every break_len wend st t = Inl e \<Longrightarrow> e = OverflowError"
  by (auto simp: loop_body_def split: sum.splits dest: take_break_error place_task_error)

lemma run_tasks_error:
  "run_tasks break_every break_len wend ts st = Inl e \<Longrightarrow> e = OverflowError"
  by (induction ts arbitrary: st) (auto split: sum.splits dest: loop_body_error)

lemma timedelta_minutes_in_range:
  assumes "0 \<le> wend" and "in_range wend n"
  shows "timedelta_minutes n = Inr (n * us_per_minute)"
proof -
  from assms have "0 \<le> n" and "n * 60000000 < 3652059 * 86400000000"
    by (simp_all add: in_range_def valid_datetime_def datetime_limit_def us_per_minute_def)
  then have "0 \<le> n div 1440" and "n div 1440 \<le> 999999999"
    by (simp_all add: div_le_mono pos_imp_zdiv_nonneg_iff) 
  then show ?thesis by (simp add: timedelta_minutes_def)
qed

lemma datetime_add_in_range:
  assumes "0 \<le> d" and "d \<le> wend" and "in_range wend n"
  shows "datetime_add d (n * us_per_minute) = Inr (d + n * us_per_minute)"
proof -
  from assms have "0 \<le> n * us_per_minute" and "wend + n * us_per_minute < datetime_limit"
    by (simp_all add: in_range_def valid_datetime_def us_per_minute_def)
  with assms(1,2) show ?thesis
    by (simp add: datetime_add_def valid_datetime_def)
qed

section \<open>Running the model\<close>

text \<open>The model evaluated on the sample inputs; the witnesses below start from these.\<close>

lemmas model_defs =
  plan_day_def resolve_window_def sort_tasks_def loop_body_def take_break_def place_task_def
  add_buffer_def timedelta_minutes_def datetime_add_def valid_datetime_def datetime_limit_def
  us_per_minute_def us_per_day_def sample_parse_def sample_tasks_def sample_blocks_def


lemma sample_sorted:
  "sort_tasks sample_tasks =
     [\<lparr>Task.name = ''Write report'', duration = 15, priority = 5\<rparr>,
      \<lparr>Task.name = ''Email'', duration = 10, priority = 2\<rparr>,
      \<lparr>Task.name = ''Call'', duration = 10, priority = 1\<rparr>]"
  by (simp add: model_defs)



lemma tied_plan:
  "plan_day sample_parse ''06:30 AM'' ''07:00 AM'' tied_tasks 60 5 =
     Inr [\<lparr>start = 63929284200000000, end_time = 63929285400000000, name = ''Write report''\<rparr>,
          \<lparr>start = 63929285400000000, end_time = 63929286000000000, name = ''Stretch''\<rparr>]"
  by (simp add: model_defs tied_tasks_def)

lemma sample_wake: "sample_parse ''07:00 AM'' = Inr (Naive 63929286000000000)"
  by (simp add: sample_parse_def)


lemma sample_rolled: "rolled 63929286000000000 63929286000000000 = 63929372400000000"
  by (simp add: rolled_def us_per_day_def)


lemma sample_in_range:
  "valid_datetime 63929286000000000 \<and> valid_datetime 63929372400000000 \<and>
   in_range 63929372400000000 3 \<and>
   list_all (\<lambda>t. in_range 63929372400000000 (duration t)) sample_tasks"
  by (simp add: in_range_def valid_datetime_def datetime_limit_def us_per_day_def
      us_per_minute_def sample_tasks_def)

lemma sample_dated:
  "sample_parse ''2026-11-10 07:00 AM'' = Inr (Naive 63929890800000000) \<and>
   sample_parse ''2026-11-04 07:00 AM'' = Inr (Naive 63929372400000000)"
  by (simp add: sample_parse_def)

section \<open>The plan tiles the window\<close>

















section \<open>The iterations of the loop\<close>







section \<open>The processing order\<close>

lemma key_le_iff:
  "((- priority a, - duration a) \<le> (- priority b, - duration b)) = before a b"
  by (auto simp: before_def less_eq_prod_def)

lemma sort_tasks_sorted: "sorted_wrt before (sort_tasks tasks)"
proof -
  have "sorted (map (\<lambda>t. (- priority t, - duration t)) (sort_tasks tasks))"
    unfolding sort_tasks_def by (rule sorted_sort_key)
  then have "sorted_wrt (\<lambda>a b. (- priority a, - duration a) \<le> (- priority b, - duration b))
      (sort_tasks tasks)"
    by (simp only: sorted_map)
  then show ?thesis
    by (simp only: key_le_iff)
qed

lemma sort_tasks_stable:
  "filter (\<lambda>t. priority t = p \<and> duration t = d) (sort_tasks tasks) =
   filter (\<lambda>t. priority t = p \<and> duration t = d) tasks"
proof -
  have "(\<lambda>t. (- priority t, - duration t) = (- p, - d)) = (\<lambda>t. priority t = p \<and> duration t = d)"
    by auto
  with sort_key_stable [of "\<lambda>t. (- priority t, - duration t)" "(- p, - d)" tasks]
  show ?thesis by (simp add: sort_tasks_def)
qed

lemma mset_sort_tasks: "mset (sort_tasks tasks) = mset tasks"
  by (simp add: sort_tasks_def)

lemma task_labels_append: "task_labels (xs @ ys) = task_labels xs @ task_labels ys"
  by (simp add: task_labels_def)

lemma loop_body_labels:
  assumes "loop_body break_every break_len wend st t = Inr st'"
  shows "\<exists>bs. plan st' = plan st @ bs \<and> (task_labels bs = [] \<or> task_labels bs = [Task.name t])"
proof -
  from loop_body_split [OF assms] obtain st1 where
    tb: "take_break break_every break_len wend st = Inr st1" and
    pt: "place_task wend st1 t = Inr st'"
    by blast
  from take_break_cases [OF tb] obtain xs where
    x: "plan st1 = plan st @ xs" "task_labels xs = []"
    by (auto simp: task_labels_def)
  from place_task_cases [OF pt] obtain ys where
    y: "plan st' = plan st1 @ ys" "task_labels ys = [] \<or> task_labels ys = [Task.name t]"
    by (auto simp: task_labels_def)
  from x y have "plan st' = plan st @ (xs @ ys)"
    and "task_labels (xs @ ys) = [] \<or> task_labels (xs @ ys) = [Task.name t]"
    by (auto simp: task_labels_append)
  then show ?thesis by blast
qed

lemma run_tasks_labels:
  "run_tasks break_every break_len wend ts st = Inr st' \<Longrightarrow>
     \<exists>bs. plan st' = plan st @ bs \<and> subseq (task_labels bs) (map Task.name ts)"
proof (induction ts arbitrary: st)
  case Nil
  then show ?case by (simp add: task_labels_def)
next
  case (Cons t ts)
  from Cons.prems obtain st1 where
    b: "loop_body break_every break_len wend st t = Inr st1" and
    r: "run_tasks break_every break_len wend ts st1 = Inr st'"
    by (auto split: sum.splits)
  from loop_body_labels [OF b] obtain xs where
    x: "plan st1 = plan st @ xs" "task_labels xs = [] \<or> task_labels xs = [Task.name t]"
    by blast
  from Cons.IH [OF r] obtain ys where
    y: "plan st' = plan st1 @ ys" "subseq (task_labels ys) (map Task.name ts)"
    by blast
  from x(2) y(2) have "subseq (task_labels (xs @ ys)) (map Task.name (t # ts))"
    by (auto simp: task_labels_append)
  with x y show ?case by auto
qed

lemma plan_day_labels:
  assumes "plan_day parse wake sleep tasks break_every break_len = Inr blocks"
  shows "subseq (task_labels blocks) (map Task.name (sort_tasks tasks))"
proof -
  from assms obtain ws we st where
    r: "run_tasks break_every break_len we (sort_tasks tasks) \<lparr>cur = ws, focus = 0, plan = []\<rparr> = Inr st"
    and b: "blocks = add_buffer we st"
    by (auto simp: plan_day_def split: sum.splits prod.splits)
  from run_tasks_labels [OF r] have "subseq (task_labels (plan st)) (map Task.name (sort_tasks tasks))"
    by simp
  moreover from b have "task_labels blocks = task_labels (plan st)"
    by (simp add: add_buffer_def task_labels_def)
  ultimately show ?thesis by simp
qed

text \<open>
  Claim C4. The processing order \<open>sort_tasks tasks\<close> is a rearrangement of the input,
  sorted on priority descending and then on duration descending, and it is stable: the
  tasks of any one priority and duration keep their input order. The task labels of the
  returned plan follow the processing order.
\<close>

theorem tasks_processed_in_stable_priority_order:
  "sorted_wrt before (sort_tasks tasks) \<and>
   mset (sort_tasks tasks) = mset tasks \<and>
   (\<forall>p d. filter (\<lambda>t. priority t = p \<and> duration t = d) (sort_tasks tasks) =
           filter (\<lambda>t. priority t = p \<and> duration t = d) tasks) \<and>
   (\<forall>blocks. plan_day parse wake sleep tasks break_every break_len = Inr blocks \<longrightarrow>
      subseq (task_labels blocks) (map Task.name (sort_tasks tasks)))"
  using sort_tasks_sorted mset_sort_tasks sort_tasks_stable plan_day_labels by blast

theorem tasks_processed_in_stable_priority_order_witness:
  "sort_tasks tied_tasks =
     [\<lparr>Task.name = ''Write report'', duration = 20, priority = 3\<rparr>,
      \<lparr>Task.name = ''Stretch'', duration = 10, priority = 3\<rparr>,
      \<lparr>Task.name = ''Email'', duration = 10, priority = 3\<rparr>] \<and>
   sorted_wrt before (sort_tasks tied_tasks) \<and>
   mset (sort_tasks tied_tasks) = mset tied_tasks \<and>
   filter (\<lambda>t. priority t = 3 \<and> duration t = 10) (sort_tasks tied_tasks) =
     filter (\<lambda>t. priority t = 3 \<and> duration t = 10) tied_tasks \<and>
   plan_day sample_parse ''06:30 AM'' ''07:00 AM'' tied_tasks 60 5 =
     Inr [\<lparr>start = 63929284200000000, end_time = 63929285400000000, name = ''Write report''\<rparr>,
          \<lparr>start = 63929285400000000, end_time = 63929286000000000, name = ''Stretch''\<rparr>] \<and>
   subseq
     (task_labels
        [\<lparr>start = 63929284200000000, end_time = 63929285400000000, name = ''Write report''\<rparr>,
         \<lparr>start = 63929285400000000, end_time = 63929286000000000, name = ''Stretch''\<rparr>])
     (map Task.name (sort_tasks tied_tasks))"
proof -
  note t = tasks_processed_in_stable_priority_order
    [of tied_tasks sample_parse "''06:30 AM''" "''07:00 AM''" 60 5]
  have s: "sort_tasks tied_tasks =
     [\<lparr>Task.name = ''Write report'', duration = 20, priority = 3\<rparr>,
      \<lparr>Task.name = ''Stretch'', duration = 10, priority = 3\<rparr>,
      \<lparr>Task.name = ''Email'', duration = 10, priority = 3\<rparr>]"
    by (simp add: sort_tasks_def tied_tasks_def)
  from t have 1: "sorted_wrt before (sort_tasks tied_tasks)"
    and 2: "mset (sort_tasks tied_tasks) = mset tied_tasks"
    and 3: "filter (\<lambda>t. priority t = 3 \<and> duration t = 10) (sort_tasks tied_tasks) =
            filter (\<lambda>t. priority t = 3 \<and> duration t = 10) tied_tasks"
    and 4: "\<forall>blocks. plan_day sample_parse ''06:30 AM'' ''07:00 AM'' tied_tasks 60 5 = Inr blocks \<longrightarrow>
              subseq (task_labels blocks) (map Task.name (sort_tasks tied_tasks))"
    by blast+
  from 4 tied_plan have 5: "subseq
     (task_labels
        [\<lparr>start = 63929284200000000, end_time = 63929285400000000, name = ''Write report''\<rparr>,
         \<lparr>start = 63929285400000000, end_time = 63929286000000000, name = ''Stretch''\<rparr>])
     (map Task.name (sort_tasks tied_tasks))"
    by blast
  show ?thesis
    by (rule conjI [OF s conjI [OF 1 conjI [OF 2 conjI [OF 3 conjI [OF tied_plan 5]]]]])
qed

section \<open>The day window and the trailing buffer\<close>


lemma resolve_window_cases:
  assumes "parse wake = Inr p" and "parse sleep = Inr q"
    and "resolve_window parse wake sleep = Inr (ws, we)"
  shows "ws = moment p \<and> we = rolled (moment p) (moment q) \<and> aware q = aware p"
  using assms
  by (auto simp: resolve_window_def rolled_def split: if_splits sum.splits
      dest: datetime_add_Inr)

lemma rolled_positive: "s < rolled s e \<longleftrightarrow> s < e + us_per_day"
  by (auto simp: rolled_def us_per_day_def)

lemma resolve_window_returns:
  assumes "parse wake = Inr p" and "parse sleep = Inr q" and "aware q = aware p"
    and "valid_datetime (rolled (moment p) (moment q))"
  shows "resolve_window parse wake sleep = Inr (moment p, rolled (moment p) (moment q))"
  using assms
  by (auto simp: resolve_window_def datetime_add_def rolled_def split: if_splits)

lemma resolve_window_type_error:
  assumes "parse wake = Inr p" and "parse sleep = Inr q" and "aware q \<noteq> aware p"
  shows "resolve_window parse wake sleep = Inl TypeError"
  using assms by (simp add: resolve_window_def)






section \<open>Failures and results\<close>

lemma resolve_window_error:
  "resolve_window parse wake sleep = Inl e \<Longrightarrow> parse wake = Inr p \<Longrightarrow> parse sleep = Inr q
     \<Longrightarrow> aware q = aware p \<Longrightarrow> e = OverflowError"
  by (auto simp: resolve_window_def split: if_splits sum.splits dest: datetime_add_error)

lemma plan_day_error:
  "plan_day parse wake sleep tasks break_every break_len = Inl e \<Longrightarrow> parse wake = Inr p
     \<Longrightarrow> parse sleep = Inr q \<Longrightarrow> aware q = aware p \<Longrightarrow> e = OverflowError"
  by (auto simp: plan_day_def split: sum.splits prod.splits
      dest: resolve_window_error run_tasks_error)

lemma plan_day_wake_error:
  "parse wake = Inl e \<Longrightarrow> plan_day parse wake sleep tasks break_every break_len = Inl e"
  by (simp add: plan_day_def resolve_window_def)

lemma plan_day_sleep_error:
  "parse wake = Inr p \<Longrightarrow> parse sleep = Inl e
     \<Longrightarrow> plan_day parse wake sleep tasks break_every break_len = Inl e"
  by (simp add: plan_day_def resolve_window_def)

lemma plan_day_type_error:
  "parse wake = Inr p \<Longrightarrow> parse sleep = Inr q \<Longrightarrow> aware q \<noteq> aware p
     \<Longrightarrow> plan_day parse wake sleep tasks break_every break_len = Inl TypeError"
  by (simp add: plan_day_def resolve_window_type_error)

lemma take_break_returns:
  assumes "0 \<le> cur st" and "cur st \<le> wend" and "in_range wend break_len"
  shows "\<exists>st'. take_break break_every break_len wend st = Inr st' \<and> 0 \<le> cur st' \<and> cur st' \<le> wend"
proof -
  from assms have "0 \<le> wend" by simp
  from timedelta_minutes_in_range [OF this assms(3)] datetime_add_in_range [OF assms] assms
  show ?thesis
    by (simp add: take_break_def in_range_def us_per_minute_def)
qed

lemma place_task_returns:
  assumes "0 \<le> cur st" and "cur st \<le> wend" and "in_range wend (duration t)"
  shows "\<exists>st'. place_task wend st t = Inr st' \<and> 0 \<le> cur st' \<and> cur st' \<le> wend"
proof -
  from assms have "0 \<le> wend" by simp
  from timedelta_minutes_in_range [OF this assms(3)] datetime_add_in_range [OF assms] assms
  show ?thesis
    by (simp add: place_task_def in_range_def us_per_minute_def)
qed

lemma loop_body_returns:
  assumes "0 \<le> cur st" and "cur st \<le> wend" and "in_range wend break_len"
    and "in_range wend (duration t)"
  shows "\<exists>st'. loop_body break_every break_len wend st t = Inr st' \<and> 0 \<le> cur st' \<and> cur st' \<le> wend"
proof -
  from take_break_returns [OF assms(1-3)] obtain st1 where
    "take_break break_every break_len wend st = Inr st1" "0 \<le> cur st1" "cur st1 \<le> wend"
    by blast
  with place_task_returns [OF this(2,3) assms(4)] show ?thesis
    by (simp add: loop_body_def)
qed

lemma run_tasks_returns:
  "0 \<le> cur st \<Longrightarrow> cur st \<le> wend \<Longrightarrow> in_range wend break_len
     \<Longrightarrow> \<forall>t\<in>set ts. in_range wend (duration t)
     \<Longrightarrow> \<exists>st'. run_tasks break_every break_len wend ts st = Inr st'"
proof (induction ts arbitrary: st)
  case Nil
  then show ?case by simp
next
  case (Cons t ts)
  from Cons.prems have "in_range wend (duration t)" by simp
  from loop_body_returns [OF Cons.prems(1-3) this] obtain st1 where
    b: "loop_body break_every break_len wend st t = Inr st1" and c: "0 \<le> cur st1" "cur st1 \<le> wend"
    by blast
  from Cons.IH [OF c Cons.prems(3)] Cons.prems(4) b show ?case by simp
qed

lemma plan_day_returns:
  assumes "resolve_window parse wake sleep = Inr (ws, we)" and "0 \<le> ws" and "ws \<le> we"
    and "in_range we break_len" and "\<forall>t\<in>set tasks. in_range we (duration t)"
  shows "\<exists>blocks. plan_day parse wake sleep tasks break_every break_len = Inr blocks"
proof -
  from assms(5) have "\<forall>t\<in>set (sort_tasks tasks). in_range we (duration t)"
    by (simp add: set_sort_tasks)
  from run_tasks_returns [of "\<lparr>cur = ws, focus = 0, plan = []\<rparr>", OF _ _ assms(4) this] assms(2,3)
  obtain st where "run_tasks break_every break_len we (sort_tasks tasks)
      \<lparr>cur = ws, focus = 0, plan = []\<rparr> = Inr st"
    by auto
  with assms(1) show ?thesis by (simp add: plan_day_def)
qed

lemma plan_day_returns_in_range:
  assumes "parse wake = Inr p" and "parse sleep = Inr q" and "aware q = aware p"
    and "moment p < moment q + us_per_day"
    and "valid_datetime (moment p)" and "valid_datetime (rolled (moment p) (moment q))"
    and "in_range (rolled (moment p) (moment q)) break_len"
    and "\<forall>t\<in>set tasks. in_range (rolled (moment p) (moment q)) (duration t)"
  shows "\<exists>blocks. plan_day parse wake sleep tasks break_every break_len = Inr blocks"
proof -
  from resolve_window_returns [OF assms(1-3,6)]
  have w: "resolve_window parse wake sleep = Inr (moment p, rolled (moment p) (moment q))" .
  from assms(4) have "moment p \<le> rolled (moment p) (moment q)"
    by (simp add: rolled_positive [symmetric])
  moreover from assms(5) have "0 \<le> moment p" by (simp add: valid_datetime_def)
  ultimately show ?thesis using plan_day_returns [OF w _ _ assms(7,8)] by blast
qed

text \<open>
  Claim C7, as amended. When the wake string, or else the sleep string, does not parse,
  \<open>plan_day\<close> fails with the parser's error unmodified, and no blocks are produced. It has
  two more failures. With both strings parsed and exactly one result timezone-aware it
  raises \<open>TypeError\<close>. With both results naive, or both aware with one UTC offset, the
  only failure is \<open>OverflowError\<close>, raised by the datetime arithmetic; there is none when the wake
  timestamp is less than a day after the sleep timestamp, the window start and end are
  datetimes and every task duration and the break length are in range.
\<close>

theorem plan_day_failure_modes:
  "(\<forall>err. parse wake = Inl err \<longrightarrow>
      plan_day parse wake sleep tasks break_every break_len = Inl err) \<and>
   (\<forall>p err. parse wake = Inr p \<and> parse sleep = Inl err \<longrightarrow>
      plan_day parse wake sleep tasks break_every break_len = Inl err) \<and>
   (\<forall>p q. parse wake = Inr p \<and> parse sleep = Inr q \<and> aware q \<noteq> aware p \<longrightarrow>
      plan_day parse wake sleep tasks break_every break_len = Inl TypeError) \<and>
   (\<forall>p q err. parse wake = Inr p \<and> parse sleep = Inr q \<and> aware q = aware p \<and>
      plan_day parse wake sleep tasks break_every break_len = Inl err \<longrightarrow>
      err = OverflowError) \<and>
   (\<forall>p q. parse wake = Inr p \<and> parse sleep = Inr q \<and> aware q = aware p \<and>
      moment p < moment q + us_per_day \<and>
      valid_datetime (moment p) \<and> valid_datetime (rolled (moment p) (moment q)) \<and>
      in_range (rolled (moment p) (moment q)) break_len \<and>
      (\<forall>t\<in>set tasks. in_range (rolled (moment p) (moment q)) (duration t)) \<longrightarrow>
      (\<exists>blocks. plan_day parse wake sleep tasks break_every break_len = Inr blocks))"
proof -
  let ?p = "plan_day parse wake sleep tasks break_every break_len"
  have 1: "\<forall>err. parse wake = Inl err \<longrightarrow> ?p = Inl err"
    by (intro allI impI) (rule plan_day_wake_error)
  have 2: "\<forall>p err. parse wake = Inr p \<and> parse sleep = Inl err \<longrightarrow> ?p = Inl err"
    by (intro allI impI, elim conjE) (rule plan_day_sleep_error)
  have 3: "\<forall>p q. parse wake = Inr p \<and> parse sleep = Inr q \<and> aware q \<noteq> aware p \<longrightarrow>
      ?p = Inl TypeError"
    by (intro allI impI, elim conjE) (rule plan_day_type_error)
  have 4: "\<forall>p q err. parse wake = Inr p \<and> parse sleep = Inr q \<and> aware q = aware p \<and>
      ?p = Inl err \<longrightarrow> err = OverflowError"
    by (intro allI impI, elim conjE) (rule plan_day_error)
  have 5: "\<forall>p q. parse wake = Inr p \<and> parse sleep = Inr q \<and> aware q = aware p \<and>
      moment p < moment q + us_per_day \<and>
      valid_datetime (moment p) \<and> valid_datetime (rolled (moment p) (moment q)) \<and>
      in_range (rolled (moment p) (moment q)) break_len \<and>
      (\<forall>t\<in>set tasks. in_range (rolled (moment p) (moment q)) (duration t)) \<longrightarrow>
      (\<exists>blocks. ?p = Inr blocks)"
    by (intro allI impI, elim conjE) (rule plan_day_returns_in_range)
  from 1 2 3 4 5 show ?thesis by (intro conjI)
qed

theorem plan_day_failure_modes_witness:
  "sample_parse ''late'' = Inl ParserError \<and>
   plan_day sample_parse ''late'' ''07:00 AM'' sample_tasks 10 3 = Inl ParserError \<and>
   sample_parse ''07:00 AM'' = Inr (Naive 63929286000000000) \<and>
   plan_day sample_parse ''07:00 AM'' ''late'' sample_tasks 10 3 = Inl ParserError \<and>
   sample_parse ''07:00 AM UTC'' = Inr (Aware 63929286000000000) \<and>
   plan_day sample_parse ''07:00 AM UTC'' ''07:00 AM'' sample_tasks 10 3 = Inl TypeError \<and>
   rolled 63929286000000000 63929286000000000 = 63929372400000000 \<and>
   valid_datetime 63929286000000000 \<and> valid_datetime 63929372400000000 \<and>
   in_range 63929372400000000 3 \<and>
   list_all (\<lambda>t. in_range 63929372400000000 (duration t)) sample_tasks \<and>
   (\<exists>blocks. plan_day sample_parse ''07:00 AM'' ''07:00 AM'' sample_tasks 10 3 = Inr blocks)"
proof -
  have l: "sample_parse ''late'' = Inl ParserError" by (simp add: sample_parse_def)
  have u: "sample_parse ''07:00 AM UTC'' = Inr (Aware 63929286000000000)"
    by (simp add: sample_parse_def)
  from plan_day_failure_modes [of sample_parse "''late''" "''07:00 AM''" sample_tasks 10 3] l
  have 1: "plan_day sample_parse ''late'' ''07:00 AM'' sample_tasks 10 3 = Inl ParserError"
    by blast
  from plan_day_failure_modes [of sample_parse "''07:00 AM''" "''late''" sample_tasks 10 3]
    l sample_wake
  have 2: "plan_day sample_parse ''07:00 AM'' ''late'' sample_tasks 10 3 = Inl ParserError"
    by blast
  have a: "aware (Naive 63929286000000000) \<noteq> aware (Aware 63929286000000000)" by simp
  from plan_day_failure_modes [of sample_parse "''07:00 AM UTC''" "''07:00 AM''" sample_tasks 10 3]
    u sample_wake a
  have 3: "plan_day sample_parse ''07:00 AM UTC'' ''07:00 AM'' sample_tasks 10 3 = Inl TypeError"
    by blast
  have r: "aware (Naive 63929286000000000) = aware (Naive 63929286000000000) \<and>
      moment (Naive 63929286000000000) < moment (Naive 63929286000000000) + us_per_day \<and>
      valid_datetime (moment (Naive 63929286000000000)) \<and>
      valid_datetime (rolled (moment (Naive 63929286000000000)) (moment (Naive 63929286000000000))) \<and>
      in_range (rolled (moment (Naive 63929286000000000)) (moment (Naive 63929286000000000))) 3 \<and>
      (\<forall>t\<in>set sample_tasks.
         in_range (rolled (moment (Naive 63929286000000000)) (moment (Naive 63929286000000000)))
           (duration t))"
    using sample_in_range by (simp add: sample_rolled list_all_iff us_per_day_def)
  from plan_day_failure_modes [of sample_parse "''07:00 AM''" "''07:00 AM''" sample_tasks 10 3]
    sample_wake r
  have 4: "\<exists>blocks. plan_day sample_parse ''07:00 AM'' ''07:00 AM'' sample_tasks 10 3 = Inr blocks"
    by blast
  from sample_in_range have v: "valid_datetime 63929286000000000"
    "valid_datetime 63929372400000000" "in_range 63929372400000000 3"
    "list_all (\<lambda>t. in_range 63929372400000000 (duration t)) sample_tasks"
    by simp_all
  show ?thesis
    by (rule conjI [OF l conjI [OF 1 conjI [OF sample_wake conjI [OF 2 conjI [OF u
          conjI [OF 3 conjI [OF sample_rolled conjI [OF v(1) conjI [OF v(2) conjI [OF v(3)
          conjI [OF v(4) 4]]]]]]]]]]])
qed

theorem plan_day_failure_modes_counterexample:
  "sample_parse ''07:00 AM UTC'' = Inr (Aware 63929286000000000) \<and>
   sample_parse ''06:30 AM'' = Inr (Naive 63929284200000000) \<and>
   sample_parse ''10:30 PM'' = Inr (Naive 63929341800000000) \<and>
   plan_day sample_parse ''07:00 AM UTC'' ''10:30 PM'' [] 60 5 = Inl TypeError \<and>
   plan_day sample_parse ''06:30 AM'' ''10:30 PM''
     [\<lparr>Task.name = ''Write report'', duration = 10000000000000, priority = 5\<rparr>] 60 5 =
     Inl OverflowError"
  by (simp add: model_defs)

section \<open>The plan is never empty\<close>

lemma loop_body_started:
  assumes "loop_body break_every break_len wend st t = Inr st'" and "started ws st"
  shows "started ws st'"
proof -
  from loop_body_split [OF assms(1)] obtain st1 where
    tb: "take_break break_every break_len wend st = Inr st1" and
    pt: "place_task wend st1 t = Inr st'"
    by blast
  from take_break_cases [OF tb] assms(2) have "started ws st1"
    by (auto simp: started_def)
  with place_task_cases [OF pt] show ?thesis
    by (auto simp: started_def)
qed

lemma run_tasks_started:
  "run_tasks break_every break_len wend ts st = Inr st' \<Longrightarrow> started ws st \<Longrightarrow> started ws st'"
  by (induction ts arbitrary: st) (auto split: sum.splits dest: loop_body_started)

lemma plan_day_nonempty:
  assumes "resolve_window parse wake sleep = Inr (ws, we)" and "ws < we"
    and "plan_day parse wake sleep tasks break_every break_len = Inr blocks"
  shows "blocks \<noteq> []"
proof -
  from assms(1,3) obtain st where
    r: "run_tasks break_every break_len we (sort_tasks tasks) \<lparr>cur = ws, focus = 0, plan = []\<rparr> = Inr st"
    and b: "blocks = add_buffer we st"
    by (auto simp: plan_day_def split: sum.splits)
  have "started ws \<lparr>cur = ws, focus = 0, plan = []\<rparr>" by (simp add: started_def)
  from run_tasks_started [OF r this] assms(2) b show ?thesis
    by (auto simp: started_def add_buffer_def)
qed

lemma plan_day_window:
  assumes "plan_day parse wake sleep tasks break_every break_len = Inr blocks"
  shows "\<exists>ws we. resolve_window parse wake sleep = Inr (ws, we)"
  using assms by (auto simp: plan_day_def split: sum.splits)

text \<open>
  Claim C10, as amended. With both strings parsed, both results naive or both aware with
  one UTC offset, and the wake timestamp less than one day after the sleep timestamp (as it is when both are
  on a common day), for every task list and all break parameters \<open>plan_day\<close> raises
  \<open>OverflowError\<close> or returns at least one block; it returns at least one block when the
  window start and end are datetimes and every task duration and the break length are in
  range.
\<close>

theorem plan_day_never_empty:
  assumes "parse wake = Inr p" and "parse sleep = Inr q" and "aware q = aware p"
    and "moment p < moment q + us_per_day"
  shows "(plan_day parse wake sleep tasks break_every break_len = Inl OverflowError \<or>
          (\<exists>blocks. plan_day parse wake sleep tasks break_every break_len = Inr blocks \<and>
                    blocks \<noteq> [])) \<and>
         (valid_datetime (moment p) \<and> valid_datetime (rolled (moment p) (moment q)) \<and>
          in_range (rolled (moment p) (moment q)) break_len \<and>
          (\<forall>t\<in>set tasks. in_range (rolled (moment p) (moment q)) (duration t)) \<longrightarrow>
          (\<exists>blocks. plan_day parse wake sleep tasks break_every break_len = Inr blocks \<and>
                    blocks \<noteq> []))"
proof -
  let ?p = "plan_day parse wake sleep tasks break_every break_len"
  let ?we = "rolled (moment p) (moment q)"
  have ne: "blocks \<noteq> []" if "?p = Inr blocks" for blocks
  proof -
    from plan_day_window [OF that] obtain ws we where
      w: "resolve_window parse wake sleep = Inr (ws, we)" by blast
    from resolve_window_cases [OF assms(1,2) w] assms(4) have "ws < we"
      by (simp add: rolled_positive)
    from plan_day_nonempty [OF w this that] show ?thesis .
  qed
  have a: "?p = Inl OverflowError \<or> (\<exists>blocks. ?p = Inr blocks \<and> blocks \<noteq> [])"
  proof (cases ?p)
    case (Inl err)
    with plan_day_error [OF Inl assms(1-3)] show ?thesis by simp
  next
    case (Inr blocks)
    with ne show ?thesis by simp
  qed
  have b: "\<exists>blocks. ?p = Inr blocks \<and> blocks \<noteq> []"
    if v: "valid_datetime (moment p)" "valid_datetime ?we" "in_range ?we break_len"
      "\<forall>t\<in>set tasks. in_range ?we (duration t)"
  proof -
    from plan_day_returns_in_range [OF assms v] obtain blocks where "?p = Inr blocks"
      by blast
    with ne show ?thesis by blast
  qed
  from b have "valid_datetime (moment p) \<and> valid_datetime ?we \<and> in_range ?we break_len \<and>
      (\<forall>t\<in>set tasks. in_range ?we (duration t)) \<longrightarrow>
      (\<exists>blocks. ?p = Inr blocks \<and> blocks \<noteq> [])"
    by (intro impI) (elim conjE)
  with a show ?thesis by (intro conjI)
qed

theorem plan_day_never_empty_witness:
  "sample_parse ''07:00 AM'' = Inr (Naive 63929286000000000) \<and>
   (63929286000000000::int) < 63929286000000000 + us_per_day \<and>
   rolled 63929286000000000 63929286000000000 = 63929372400000000 \<and>
   valid_datetime 63929286000000000 \<and> valid_datetime 63929372400000000 \<and>
   in_range 63929372400000000 3 \<and>
   list_all (\<lambda>t. in_range 63929372400000000 (duration t)) sample_tasks \<and>
   (\<exists>blocks. plan_day sample_parse ''07:00 AM'' ''07:00 AM'' sample_tasks 10 3 = Inr blocks \<and>
             blocks \<noteq> [])"
proof -
  have a: "aware (Naive 63929286000000000) = aware (Naive 63929286000000000)" by simp
  have d: "(63929286000000000::int) < 63929286000000000 + us_per_day"
    by (simp add: us_per_day_def)
  then have d': "moment (Naive 63929286000000000) < moment (Naive 63929286000000000) + us_per_day"
    by simp
  from plan_day_never_empty [where parse = sample_parse and wake = "''07:00 AM''"
      and sleep = "''07:00 AM''" and tasks = sample_tasks and break_every = 10 and break_len = 3,
      OF sample_wake sample_wake a d'] sample_in_range
  have e: "\<exists>blocks. plan_day sample_parse ''07:00 AM'' ''07:00 AM'' sample_tasks 10 3 = Inr blocks \<and>
             blocks \<noteq> []"
    by (simp add: sample_rolled list_all_iff)
  from sample_in_range have v: "valid_datetime 63929286000000000"
    "valid_datetime 63929372400000000" "in_range 63929372400000000 3"
    "list_all (\<lambda>t. in_range 63929372400000000 (duration t)) sample_tasks"
    by simp_all
  show ?thesis
    by (rule conjI [OF sample_wake conjI [OF d conjI [OF sample_rolled conjI [OF v(1)
          conjI [OF v(2) conjI [OF v(3) conjI [OF v(4) e]]]]]]])
qed

theorem plan_day_never_empty_counterexample:
  "sample_parse ''2026-11-10 07:00 AM'' = Inr (Naive 63929890800000000) \<and>
   sample_parse ''2026-11-04 07:00 AM'' = Inr (Naive 63929372400000000) \<and>
   plan_day sample_parse ''2026-11-10 07:00 AM'' ''2026-11-04 07:00 AM'' [] 60 5 = Inr [] \<and>
   sample_parse ''07:00 AM UTC'' = Inr (Aware 63929286000000000) \<and>
   sample_parse ''07:00 AM'' = Inr (Naive 63929286000000000) \<and>
   plan_day sample_parse ''07:00 AM UTC'' ''07:00 AM'' [] 60 5 = Inl TypeError \<and>
   plan_day sample_parse ''07:00 AM'' ''07:00 AM''
     [\<lparr>Task.name = ''Write report'', duration = 30, priority = 5\<rparr>,
      \<lparr>Task.name = ''Archive'', duration = 5000000000, priority = 1\<rparr>] 60 5 =
     Inl OverflowError"
  by (simp add: model_defs)

section \<open>The degenerate window\<close>

lemma place_task_no_room:
  assumes "wend \<le> cur st" and "0 < duration t"
  shows "place_task wend st t = Inr st \<or> place_task wend st t = Inl OverflowError"
proof (cases "place_task wend st t")
  case (Inl err)
  with place_task_error show ?thesis by simp
next
  case (Inr st')
  from place_task_cases [OF this] assms Inr show ?thesis
    by (auto simp: us_per_minute_def)
qed

lemma take_break_not_due:
  "focus st < break_every \<Longrightarrow> take_break break_every break_len wend st = Inr st"
  by (simp add: take_break_def)

lemma run_tasks_no_room:
  assumes "wend \<le> cur st" and "focus st < break_every" and "\<forall>t\<in>set ts. 0 < duration t"
  shows "run_tasks break_every break_len wend ts st = Inr st \<or>
         run_tasks break_every break_len wend ts st = Inl OverflowError"
  using assms(3)
proof (induction ts)
  case Nil
  then show ?case by simp
next
  case (Cons t ts)
  then have "0 < duration t" by simp
  from place_task_no_room [OF assms(1) this] Cons take_break_not_due [OF assms(2)]
  show ?case by (auto simp: loop_body_def)
qed








section \<open>The rows of format_blocks\<close>

lemma hour_of_range: "0 \<le> hour_of d \<and> hour_of d < 24"
  by (simp add: hour_of_def)

lemma minute_of_range: "0 \<le> minute_of d \<and> minute_of d < 60"
  by (simp add: minute_of_def)

lemma hour12_range: "1 \<le> hour12 h \<and> hour12 h \<le> 12"
proof -
  have "0 \<le> h mod 12" and "h mod 12 < 12" by simp_all
  then show ?thesis by (auto simp: hour12_def)
qed

lemma hour12_mod: "hour12 h mod 12 = h mod 12"
  by (simp add: hour12_def)

text \<open>
  Claim C9. \<open>format_blocks\<close> returns one row per block, in the same order; the row holds
  the block's label unchanged and a time range made of the block's start and end, each as
  a two-digit hour of the 12-hour clock (01 to 12, with a leading zero), a colon, a
  two-digit minute, a space and AM or PM.
\<close>

theorem format_blocks_rows:
  "length (format_blocks blocks) = length blocks \<and>
   (\<forall>i<length blocks.
      format_blocks blocks ! i =
        [(''Time'', strftime_I_M_p (start (blocks ! i)) @ en_dash @
                    strftime_I_M_p (end_time (blocks ! i))),
         (''Task'', name (blocks ! i))]) \<and>
   (\<forall>d. \<exists>h m. 1 \<le> h \<and> h \<le> 12 \<and> h mod 12 = hour_of d mod 12 \<and>
            0 \<le> m \<and> m \<le> 59 \<and> m = minute_of d \<and>
            strftime_I_M_p d =
              two_digits h @ '':'' @ two_digits m @ '' '' @
              (if hour_of d < 12 then ''AM'' else ''PM'') \<and>
            length (two_digits h) = 2 \<and> length (two_digits m) = 2 \<and>
            (h < 10 \<longrightarrow> hd (two_digits h) = CHR ''0'') \<and>
            (m < 10 \<longrightarrow> hd (two_digits m) = CHR ''0''))"
proof -
  have 1: "length (format_blocks blocks) = length blocks"
    by (simp add: format_blocks_def)
  have 2: "\<forall>i<length blocks.
      format_blocks blocks ! i =
        [(''Time'', strftime_I_M_p (start (blocks ! i)) @ en_dash @
                    strftime_I_M_p (end_time (blocks ! i))),
         (''Task'', name (blocks ! i))]"
    by (simp add: format_blocks_def)
  have 3: "\<exists>h m. 1 \<le> h \<and> h \<le> 12 \<and> h mod 12 = hour_of d mod 12 \<and>
            0 \<le> m \<and> m \<le> 59 \<and> m = minute_of d \<and>
            strftime_I_M_p d =
              two_digits h @ '':'' @ two_digits m @ '' '' @
              (if hour_of d < 12 then ''AM'' else ''PM'') \<and>
            length (two_digits h) = 2 \<and> length (two_digits m) = 2 \<and>
            (h < 10 \<longrightarrow> hd (two_digits h) = CHR ''0'') \<and>
            (m < 10 \<longrightarrow> hd (two_digits m) = CHR ''0'')" for d
  proof (rule exI [of _ "hour12 (hour_of d)"], rule exI [of _ "minute_of d"], intro conjI)
    show "strftime_I_M_p d =
      two_digits (hour12 (hour_of d)) @ '':'' @ two_digits (minute_of d) @ '' '' @
      (if hour_of d < 12 then ''AM'' else ''PM'')"
      by (simp add: strftime_I_M_p_def am_pm_def)
    show "hour12 (hour_of d) < 10 \<longrightarrow> hd (two_digits (hour12 (hour_of d))) = CHR ''0''"
      using hour12_range [of "hour_of d"] by (simp add: two_digits_def)
    show "minute_of d < 10 \<longrightarrow> hd (two_digits (minute_of d)) = CHR ''0''"
      using minute_of_range [of d] by (simp add: two_digits_def)
  qed (use hour12_range [of "hour_of d"] minute_of_range [of d] in
        \<open>simp_all add: hour12_mod two_digits_def\<close>)
  from 1 2 3 show ?thesis by blast
qed

theorem format_blocks_rows_witness:
  "length (format_blocks sample_blocks) = 4 \<and>
   (1::nat) < length sample_blocks \<and>
   format_blocks sample_blocks ! 1 =
     [(''Time'', ''06:45 AM'' @ en_dash @ ''06:48 AM''), (''Task'', ''Short Break'')]"
proof -
  note t = format_blocks_rows [of sample_blocks]
  have l: "(1::nat) < length sample_blocks" by (simp add: sample_blocks_def)
  from t have 1: "length (format_blocks sample_blocks) = 4"
    by (simp add: sample_blocks_def)
  from t l have "format_blocks sample_blocks ! 1 =
        [(''Time'', strftime_I_M_p (start (sample_blocks ! 1)) @ en_dash @
                    strftime_I_M_p (end_time (sample_blocks ! 1))),
         (''Task'', name (sample_blocks ! 1))]"
    by blast
  then have 2: "format_blocks sample_blocks ! 1 =
     [(''Time'', ''06:45 AM'' @ en_dash @ ''06:48 AM''), (''Task'', ''Short Break'')]"
    by (simp add: sample_blocks_def strftime_I_M_p_def two_digits_def hour12_def hour_of_def
        minute_of_def am_pm_def)
  show ?thesis by (rule conjI [OF 1 conjI [OF l 2]])
qed

end
